theory Spec2Isabelle
  imports Main "HOL-Library.Word" "HOL-Library.Sublist"
begin

section \<open>Python strings and bytes\<close>

text \<open>
  A Python \<open>str\<close> is a sequence of code points. The model covers the code points
  U+0000 to U+00FF: a \<open>char\<close> is one code point of that range, a \<open>string\<close> is a
  \<open>str\<close>, and \<open>length\<close> counts code points as \<open>len\<close> does. This is the whole range
  of \<open>self.path\<close> (the request line is decoded as ISO-8859-1 by \<open>http.server\<close>);
  names in the configuration document and the decoded credentials are taken from the
  same range. A \<open>bytes\<close> object is a list of 8-bit words.
\<close>

type_synonym byte = "8 word"

definition dq :: char where
  "dq = CHR 0x22"

text \<open>\<open>str.isspace\<close> on one code point: the ASCII and Latin-1 whitespace of CPython.\<close>

definition isspace :: "char \<Rightarrow> bool" where
  "isspace c = (let n = (of_char c :: nat) in
     (9 \<le> n \<and> n \<le> 13) \<or> (28 \<le> n \<and> n \<le> 32) \<or> n = 0x85 \<or> n = 0xA0)"

text \<open>\<open>str.lower\<close>: A-Z and the Latin-1 capitals U+00C0-U+00DE (without the
  multiplication sign U+00D7) move up by 32; every other code point stays.\<close>

definition lower_char :: "char \<Rightarrow> char" where
  "lower_char c = (let n = (of_char c :: nat) in
     if (65 \<le> n \<and> n \<le> 90) \<or> (192 \<le> n \<and> n \<le> 222 \<and> n \<noteq> 215)
     then char_of (n + 32) else c)"

definition lower :: "string \<Rightarrow> string" where
  "lower s = map lower_char s"

text \<open>\<open>str.split()\<close> without arguments: the maximal runs of non-whitespace, in order.
  The first argument is the word being collected.\<close>

fun split_words :: "string \<Rightarrow> string \<Rightarrow> string list" where
  "split_words w [] = (if w = [] then [] else [w])"
| "split_words w (c # cs) =
     (if isspace c then (if w = [] then split_words [] cs else w # split_words [] cs)
      else split_words (w @ [c]) cs)"

definition split :: "string \<Rightarrow> string list" where
  "split s = split_words [] s"

text \<open>\<open>str.split(sep)\<close> with a one-character separator: every separator cuts, empty
  pieces are kept, and the result is never empty.\<close>

fun split_at :: "char \<Rightarrow> string \<Rightarrow> string \<Rightarrow> string list" where
  "split_at sep w [] = [w]"
| "split_at sep w (c # cs) =
     (if c = sep then w # split_at sep [] cs else split_at sep (w @ [c]) cs)"

definition split_sep :: "string \<Rightarrow> char \<Rightarrow> string list" where
  "split_sep s sep = split_at sep [] s"

text \<open>\<open>sep.join(parts)\<close>.\<close>

fun join :: "string \<Rightarrow> string list \<Rightarrow> string" where
  "join sep [] = []"
| "join sep [x] = x"
| "join sep (x # y # ys) = x @ sep @ join sep (y # ys)"

text \<open>\<open>str.encode("utf-8")\<close>: one byte below U+0080, two bytes from there to U+00FF.\<close>

definition encode_char :: "char \<Rightarrow> byte list" where
  "encode_char c = (let n = (of_char c :: nat) in
     if n < 128 then [of_nat n] else [of_nat (192 + n div 64), of_nat (128 + n mod 64)])"

definition encode :: "string \<Rightarrow> byte list" where
  "encode s = concat (map encode_char s)"

section \<open>\<open>os.path.normpath\<close> (POSIX)\<close>

text \<open>The loop of \<open>posixpath.normpath\<close> over the components; \<open>new_comps\<close> is the
  list built so far.\<close>

fun norm_comps :: "bool \<Rightarrow> string list \<Rightarrow> string list \<Rightarrow> string list" where
  "norm_comps initial_slashes new_comps [] = new_comps"
| "norm_comps initial_slashes new_comps (cmp # comps) =
     (if cmp = [] \<or> cmp = ''.'' then norm_comps initial_slashes new_comps comps
      else if cmp \<noteq> ''..'' \<or> (\<not> initial_slashes \<and> new_comps = [])
              \<or> (new_comps \<noteq> [] \<and> last new_comps = ''..'')
        then norm_comps initial_slashes (new_comps @ [cmp]) comps
      else if new_comps \<noteq> [] then norm_comps initial_slashes (butlast new_comps) comps
      else norm_comps initial_slashes new_comps comps)"

text \<open>The number of leading slashes kept: two when the path starts with exactly two,
  one when it starts with one or with three or more, none otherwise.\<close>

definition initial_slashes :: "string \<Rightarrow> nat" where
  "initial_slashes p =
     (if take 1 p = ''/'' then (if take 2 p = ''//'' \<and> take 3 p \<noteq> ''///'' then 2 else 1) else 0)"

definition normpath :: "string \<Rightarrow> string" where
  "normpath p =
     (if p = [] then ''.''
      else let n = initial_slashes p;
               comps = norm_comps (n \<noteq> 0) [] (split_sep p (CHR ''/''));
               r = replicate n (CHR ''/'') @ join ''/'' comps
           in if r = [] then ''.'' else r)"

section \<open>\<open>hashlib\<close>\<close>

text \<open>
  \<open>hashlib.sha1\<close> and \<open>hashlib.sha256\<close> are library functions: the model takes them as
  parameters, a function from the bytes hashed to the 160-bit and to the 256-bit digest.
  \<open>hexdigest\<close> writes a digest as lower-case hexadecimal digits, most significant first.
\<close>

type_synonym sha1_fun = "byte list \<Rightarrow> 160 word"
type_synonym sha256_fun = "byte list \<Rightarrow> 256 word"

definition hexdigit :: "int \<Rightarrow> char" where
  "hexdigit n = ''0123456789abcdef'' ! nat (n mod 16)"

text \<open>The last \<open>k\<close> hexadecimal digits of \<open>n\<close>.\<close>

fun hex_of :: "nat \<Rightarrow> int \<Rightarrow> string" where
  "hex_of 0 n = []"
| "hex_of (Suc k) n = hex_of k (n div 16) @ [hexdigit n]"

definition hexdigest :: "'a::len word \<Rightarrow> string" where
  "hexdigest w = hex_of (LENGTH('a) div 4) (uint w)"

section \<open>The operating system and the connection\<close>

text \<open>
  \<open>os.stat_result\<close> with its ten indexed fields. What a path names has its bytes and its
  status; \<open>open_error\<close> is what \<open>open(path, "rb")\<close> raises on it, if anything
  (\<open>IsADirectoryError\<close> for a directory, \<open>PermissionError\<close> for a file that may not be
  read), and \<open>io_error\<close> says that reading it once open raises \<open>OSError\<close>.
\<close>

record stat_result =
  st_mode :: int
  st_ino :: int
  st_dev :: int
  st_nlink :: int
  st_uid :: int
  st_gid :: int
  st_size :: int
  st_atime :: int
  st_mtime :: int
  st_ctime :: int

datatype error =
    IOError string
  | FileNotFoundError string
  | IsADirectoryError string
  | PermissionError string
  | OSError
  | BrokenPipeError
  | IndexError

record os_file =
  content :: "byte list"
  st :: stat_result
  open_error :: "error option"
  io_error :: bool

text \<open>The value given to \<open>ResourceAccess.length\<close>: an \<open>int\<close> or an \<open>os.stat_result\<close>.\<close>

datatype length_value = IntValue int | StatValue stat_result

text \<open>A stream is a \<open>io.BytesIO\<close> over bytes in memory, or a file object, known by the
  number it got when it was opened.\<close>

datatype stream = BytesIO "byte list" | FileObject nat

text \<open>What the handler asks of \<open>BaseHTTPRequestHandler\<close>, in order.\<close>

datatype header_value = StrHeader string | LengthHeader length_value

datatype event =
    Send_response int
  | Send_header string header_value
  | End_headers
  | Wfile_write "byte list"

text \<open>
  The state around one request: the filesystem, the file objects that are open (each
  with the file it was opened on), the number of the next file object, the calls made
  on the response so far (latest first), and whether the client is still connected
  (a write to \<open>wfile\<close> raises \<open>BrokenPipeError\<close> when it is not).
\<close>

record world =
  fs :: "string \<rightharpoonup> os_file"
  open_files :: "nat \<rightharpoonup> os_file"
  next_file :: nat
  sent :: "event list"
  client_connected :: bool

definition os_path_exists :: "(string \<rightharpoonup> os_file) \<Rightarrow> string \<Rightarrow> bool" where
  "os_path_exists files p = (files p \<noteq> None)"

definition os_stat :: "string \<Rightarrow> world \<Rightarrow> error + stat_result" where
  "os_stat p w = (case fs w p of None \<Rightarrow> Inl (FileNotFoundError p) | Some f \<Rightarrow> Inr (st f))"

text \<open>\<open>open(path, "rb")\<close>: no file object is made when the path is missing or when
  opening what it names raises.\<close>

definition open_rb :: "string \<Rightarrow> world \<Rightarrow> (error + stream) \<times> world" where
  "open_rb p w =
     (case fs w p of
        None \<Rightarrow> (Inl (FileNotFoundError p), w)
      | Some f \<Rightarrow>
          (case open_error f of
             Some e \<Rightarrow> (Inl e, w)
           | None \<Rightarrow> (Inr (FileObject (next_file w)),
                       w\<lparr>open_files := (open_files w)(next_file w \<mapsto> f),
                         next_file := Suc (next_file w)\<rparr>)))"

text \<open>\<open>stream.read()\<close>: all the bytes. Each stream of the program is read once, so the
  position in the stream is not part of the model.\<close>

definition stream_read :: "stream \<Rightarrow> world \<Rightarrow> error + byte list" where
  "stream_read s w =
     (case s of
        BytesIO b \<Rightarrow> Inr b
      | FileObject n \<Rightarrow>
          (case open_files w n of
             None \<Rightarrow> Inl OSError
           | Some f \<Rightarrow> if io_error f then Inl OSError else Inr (content f)))"

definition stream_close :: "stream \<Rightarrow> world \<Rightarrow> world" where
  "stream_close s w =
     (case s of
        BytesIO b \<Rightarrow> w
      | FileObject n \<Rightarrow> w\<lparr>open_files := (open_files w)(n := None)\<rparr>)"

definition send_response :: "int \<Rightarrow> world \<Rightarrow> world" where
  "send_response code w = w\<lparr>sent := Send_response code # sent w\<rparr>"

definition send_header :: "string \<Rightarrow> header_value \<Rightarrow> world \<Rightarrow> world" where
  "send_header keyword v w = w\<lparr>sent := Send_header keyword v # sent w\<rparr>"

text \<open>\<open>end_headers\<close> flushes the buffered headers to \<open>wfile\<close>, and \<open>wfile.write\<close> writes
  to the socket: both raise when the client has gone.\<close>

definition end_headers :: "world \<Rightarrow> (error + unit) \<times> world" where
  "end_headers w =
     (if client_connected w then (Inr (), w\<lparr>sent := End_headers # sent w\<rparr>)
      else (Inl BrokenPipeError, w))"

definition wfile_write :: "byte list \<Rightarrow> world \<Rightarrow> (error + unit) \<times> world" where
  "wfile_write b w =
     (if client_connected w then (Inr (), w\<lparr>sent := Wfile_write b # sent w\<rparr>)
      else (Inl BrokenPipeError, w))"

section \<open>resources.py\<close>

subsection \<open>The catalog entries\<close>

record ResourceData =
  name :: string
  url :: string

record PageData = ResourceData +
  corridor :: string
  room :: string
  times :: "(string \<times> string) list"

record FileData = ResourceData +
  path :: string

text \<open>\<open>ResourceData.__init__\<close>: the url is the SHA-1 of the lower-cased name without
  its whitespace, in hexadecimal.\<close>

definition ResourceData_init :: "sha1_fun \<Rightarrow> string \<Rightarrow> ResourceData" where
  "ResourceData_init sha1 nm =
     (let name_bytes = encode (join [] (split (lower nm)))
      in \<lparr>name = nm, url = hexdigest (sha1 name_bytes)\<rparr>)"

definition PageData_init ::
  "sha1_fun \<Rightarrow> string \<Rightarrow> string \<Rightarrow> string \<Rightarrow> (string \<times> string) list \<Rightarrow> PageData" where
  "PageData_init sha1 nm c r ts =
     (let base = ResourceData_init sha1 nm
      in \<lparr>name = name base, url = url base, corridor = c, room = r, times = ts\<rparr>)"

text \<open>\<open>FileData.__init__\<close> raises when the path does not exist; the path kept is the
  normalized one.\<close>

definition FileData_init ::
  "sha1_fun \<Rightarrow> (string \<rightharpoonup> os_file) \<Rightarrow> string \<Rightarrow> string \<Rightarrow> error + FileData" where
  "FileData_init sha1 files nm p =
     (if \<not> os_path_exists files p
      then Inl (IOError ([CHR 0x27] @ p @ [CHR 0x27] @ '' file not found while initializing''))
      else let base = ResourceData_init sha1 nm
           in Inr \<lparr>name = name base, url = url base, path = normpath p\<rparr>)"

subsection \<open>ResourceAccess\<close>

record ResourceAccess =
  ra_name :: string
  ra_length :: length_value
  ra_stream :: stream

definition from_html :: "string \<Rightarrow> string \<Rightarrow> ResourceAccess" where
  "from_html nm html =
     \<lparr>ra_name = nm, ra_length = IntValue (int (length html)), ra_stream = BytesIO (encode html)\<rparr>"

text \<open>\<open>from_file\<close>: the arguments of the constructor are evaluated left to right,
  \<open>os.stat(path)\<close> before \<open>open(path, "rb")\<close>.\<close>

definition from_file :: "string \<Rightarrow> string \<Rightarrow> world \<Rightarrow> (error + ResourceAccess) \<times> world" where
  "from_file nm p w =
     (case os_stat p w of
        Inl e \<Rightarrow> (Inl e, w)
      | Inr s \<Rightarrow>
          (case open_rb p w of
             (Inl e, w') \<Rightarrow> (Inl e, w')
           | (Inr f, w') \<Rightarrow> (Inr \<lparr>ra_name = nm, ra_length = StatValue s, ra_stream = f\<rparr>, w')))"

subsection \<open>ResourceProvider\<close>

record ResourceProvider =
  pages :: "PageData list"
  files :: "FileData list"
  realm :: string
  users :: "string \<rightharpoonup> string"

definition style :: string where
  "style = ''body{margin:44px;auto;max-width:650px;line-height:1.8;font-size:16px;color:#444;padding:0;10px}h1{line-height:1.5}''"

definition draw_header :: "string \<Rightarrow> string" where
  "draw_header title =
     ''<html><head><title>'' @ title @ ''</title><style type='' @ [dq] @ ''text/css'' @ [dq] @ ''>''
       @ style @ ''</style></head><body><h1>'' @ title @ ''</h1>''"

definition draw_footer :: string where
  "draw_footer = ''</body></html>''"

text \<open>The loop of \<open>__draw_index\<close>, over the \<open>(url, name)\<close> of the entries.\<close>

fun draw_index_loop :: "string \<Rightarrow> (string \<times> string) list \<Rightarrow> string" where
  "draw_index_loop body [] = body"
| "draw_index_loop body ((u, n) # ds) =
     draw_index_loop (body @ ''<p><a href='' @ [dq] @ u @ [dq] @ ''>'' @ n @ ''</a></p>'') ds"

definition draw_index :: "string \<Rightarrow> (string \<times> string) list \<Rightarrow> string" where
  "draw_index title data = draw_index_loop (''<p>'' @ title @ ''</p>'') data"

fun draw_page_loop :: "string \<Rightarrow> (string \<times> string) list \<Rightarrow> string" where
  "draw_page_loop body [] = body"
| "draw_page_loop body (seg # segs) =
     draw_page_loop (body @ ''<tr><td>'' @ fst seg @ ''</td><td>'' @ snd seg @ ''</td>'') segs"

definition draw_page :: "PageData \<Rightarrow> string" where
  "draw_page page =
     draw_page_loop (''<p>Corridoio '' @ corridor page @ '' stanza '' @ room page
        @ ''</p><table border='' @ [dq] @ ''2'' @ [dq] @ ''><tr><th>Dalle</th><th>Alle</th>'')
       (times page) @ ''</table>''"

text \<open>
  The configuration document after \<open>json.load\<close>, with the keys the constructor reads:
  the pages (\<open>name\<close>, \<open>corridor\<close>, \<open>room\<close>, \<open>times\<close> as \<open>start\<close> and \<open>end\<close>), the
  files (\<open>name\<close>, \<open>path\<close>), the realm and the users (\<open>name\<close>, \<open>passwd_sha\<close>).
  A document that cannot be read or lacks a key is outside the model.
\<close>

record json_page =
  page_name :: string
  page_corridor :: string
  page_room :: string
  page_times :: "(string \<times> string) list"

record config =
  config_pages :: "json_page list"
  config_files :: "(string \<times> string) list"
  config_realm :: string
  config_users :: "(string \<times> string) list"

definition times_convert :: "(string \<times> string) list \<Rightarrow> (string \<times> string) list" where
  "times_convert dict_list = map (\<lambda>d. (fst d, snd d)) dict_list"

definition json_page_to_data :: "sha1_fun \<Rightarrow> json_page \<Rightarrow> PageData" where
  "json_page_to_data sha1 j =
     PageData_init sha1 (page_name j) (page_corridor j) (page_room j) (times_convert (page_times j))"

text \<open>The dictionary comprehension: a later pair replaces an earlier one of the same name.\<close>

fun json_user_to_dict :: "(string \<rightharpoonup> string) \<Rightarrow> (string \<times> string) list \<Rightarrow> (string \<rightharpoonup> string)" where
  "json_user_to_dict d [] = d"
| "json_user_to_dict d (pair # rest) = json_user_to_dict (d(fst pair \<mapsto> snd pair)) rest"

text \<open>The list comprehension over the files: the first \<open>FileData\<close> that raises ends it.\<close>

fun files_init :: "sha1_fun \<Rightarrow> (string \<rightharpoonup> os_file) \<Rightarrow> (string \<times> string) list \<Rightarrow> error + FileData list" where
  "files_init sha1 disk [] = Inr []"
| "files_init sha1 disk (f # rest) =
     (case FileData_init sha1 disk (fst f) (snd f) of
        Inl e \<Rightarrow> Inl e
      | Inr d \<Rightarrow> (case files_init sha1 disk rest of Inl e \<Rightarrow> Inl e | Inr ds \<Rightarrow> Inr (d # ds)))"

definition ResourceProvider_init :: "sha1_fun \<Rightarrow> (string \<rightharpoonup> os_file) \<Rightarrow> config \<Rightarrow> error + ResourceProvider" where
  "ResourceProvider_init sha1 disk cfg =
     (let ps = map (json_page_to_data sha1) (config_pages cfg)
      in case files_init sha1 disk (config_files cfg) of
           Inl e \<Rightarrow> Inl e
         | Inr fl \<Rightarrow> Inr \<lparr>pages = ps, files = fl, realm = config_realm cfg,
                          users = json_user_to_dict Map.empty (config_users cfg)\<rparr>)"

definition get_index :: "ResourceProvider \<Rightarrow> ResourceAccess" where
  "get_index self =
     (let html = draw_header ''Servizi ospedalieri''
                   @ draw_index ''Servizi'' (map (\<lambda>d. (url d, name d)) (pages self))
                   @ ''<br/>''
                   @ draw_index ''Documenti'' (map (\<lambda>d. (url d, name d)) (files self))
                   @ draw_footer
      in from_html ''Ospedale'' html)"

fun get_page_loop :: "PageData list \<Rightarrow> string \<Rightarrow> ResourceAccess option" where
  "get_page_loop [] u = None"
| "get_page_loop (p # ps) u =
     (if url p = u
      then Some (from_html (name p) (draw_header (name p) @ draw_page p @ draw_footer))
      else get_page_loop ps u)"

definition get_page :: "ResourceProvider \<Rightarrow> string \<Rightarrow> ResourceAccess option" where
  "get_page self u = get_page_loop (pages self) u"

definition get_error :: "ResourceProvider \<Rightarrow> string \<Rightarrow> ResourceAccess" where
  "get_error self u =
     from_html ''Pagina sconosciuta''
       (draw_header ([CHR 0x27] @ u @ [CHR 0x27] @ '' non trovato'') @ draw_footer)"

fun get_file_loop :: "FileData list \<Rightarrow> string \<Rightarrow> world \<Rightarrow> (error + ResourceAccess option) \<times> world" where
  "get_file_loop [] u w = (Inr None, w)"
| "get_file_loop (f # rest) u w =
     (if url f = u
      then (case from_file (name f) (path f) w of
              (Inl e, w') \<Rightarrow> (Inl e, w')
            | (Inr r, w') \<Rightarrow> (Inr (Some r), w'))
      else get_file_loop rest u w)"

definition get_file :: "ResourceProvider \<Rightarrow> string \<Rightarrow> world \<Rightarrow> (error + ResourceAccess option) \<times> world" where
  "get_file self u w = get_file_loop (files self) (normpath u) w"

definition get_authentication_realm :: "ResourceProvider \<Rightarrow> string" where
  "get_authentication_realm self = realm self"

definition is_user_authenticated :: "ResourceProvider \<Rightarrow> string \<Rightarrow> string \<Rightarrow> bool" where
  "is_user_authenticated self nm passwd_sha =
     (if nm \<in> dom (users self) then users self nm = Some passwd_sha else False)"

section \<open>main.py\<close>

text \<open>
  The handler of one request: \<open>self.path\<close>, and the credentials of the
  \<open>Authorization\<close> header after Base64 and UTF-8 decoding (\<open>None\<close> without the header).
  \<open>RequestHandler.resources\<close> is the first argument of each function.
\<close>

record RequestHandler =
  self_path :: string
  authorization :: "string option"

type_synonym response = "int \<times> ResourceAccess \<times> string \<times> string"

definition path_is_index :: "string \<Rightarrow> bool" where
  "path_is_index p = (p = ''/'' \<or> p = ''/index.html'' \<or> p = ''/index.htm'')"

text \<open>\<open>__try_get_html\<close> reads \<open>self.path\<close>, not its argument.\<close>

definition try_get_html :: "ResourceProvider \<Rightarrow> RequestHandler \<Rightarrow> string \<Rightarrow> response option" where
  "try_get_html resources self page =
     (let p = lower (self_path self)
      in if path_is_index p then Some (200, get_index resources, ''text/html'', ''inline'')
         else (case get_page resources (drop 1 p) of
                 Some pg \<Rightarrow> Some (200, pg, ''text/html'', ''inline'')
               | None \<Rightarrow> None))"

definition try_get_file ::
  "ResourceProvider \<Rightarrow> RequestHandler \<Rightarrow> string \<Rightarrow> world \<Rightarrow> (error + response option) \<times> world" where
  "try_get_file resources self p w =
     (case get_file resources (''.'' @ p) w of
        (Inl e, w') \<Rightarrow> (Inl e, w')
      | (Inr (Some f), w') \<Rightarrow> (Inr (Some (200, f, ''application/octet-stream'', ''attachment'')), w')
      | (Inr None, w') \<Rightarrow> (Inr None, w'))"

definition get_not_found :: "ResourceProvider \<Rightarrow> RequestHandler \<Rightarrow> string \<Rightarrow> response" where
  "get_not_found resources self p = (404, get_error resources p, ''text/html'', ''inline'')"

definition dispatch ::
  "ResourceProvider \<Rightarrow> RequestHandler \<Rightarrow> string \<Rightarrow> world \<Rightarrow> (error + response) \<times> world" where
  "dispatch resources self p w =
     (case try_get_html resources self p of
        Some html \<Rightarrow> (Inr html, w)
      | None \<Rightarrow>
          (case try_get_file resources self p w of
             (Inl e, w') \<Rightarrow> (Inl e, w')
           | (Inr (Some f), w') \<Rightarrow> (Inr f, w')
           | (Inr None, w') \<Rightarrow> (Inr (get_not_found resources self p), w')))"

text \<open>\<open>__client_is_authenticated\<close>, from the decoded credentials on: they are split at
  every colon, the first piece is the name and the second the password.\<close>

definition client_is_authenticated ::
  "sha256_fun \<Rightarrow> ResourceProvider \<Rightarrow> RequestHandler \<Rightarrow> error + bool" where
  "client_is_authenticated sha256 resources self =
     (case authorization self of
        None \<Rightarrow> Inr False
      | Some decoded \<Rightarrow>
          (case split_sep decoded (CHR '':'') of
             nm # pw # rest \<Rightarrow>
               Inr (is_user_authenticated resources nm (hexdigest (sha256 (encode pw))))
           | _ \<Rightarrow> Inl IndexError))"

definition handle_GET :: "ResourceProvider \<Rightarrow> RequestHandler \<Rightarrow> world \<Rightarrow> (error + unit) \<times> world" where
  "handle_GET resources self w =
     (case dispatch resources self (self_path self) w of
        (Inl e, w1) \<Rightarrow> (Inl e, w1)
      | (Inr (code, resource, content_type, disposition), w1) \<Rightarrow>
          (let w2 = send_response code w1;
               w3 = send_header ''Content-type'' (StrHeader content_type) w2;
               w4 = send_header ''Content-length'' (LengthHeader (ra_length resource)) w3;
               w5 = send_header ''Content-Disposition''
                      (StrHeader (disposition @ ''; filename='' @ [dq] @ ra_name resource @ [dq])) w4
           in case end_headers w5 of
                (Inl e, w6) \<Rightarrow> (Inl e, w6)
              | (Inr u, w6) \<Rightarrow>
                  (case stream_read (ra_stream resource) w6 of
                     Inl e \<Rightarrow> (Inl e, w6)
                   | Inr bytes \<Rightarrow>
                       (case wfile_write bytes w6 of
                          (Inl e, w7) \<Rightarrow> (Inl e, w7)
                        | (Inr u', w7) \<Rightarrow> (Inr (), stream_close (ra_stream resource) w7)))))"

definition request_authentication :: "ResourceProvider \<Rightarrow> world \<Rightarrow> (error + unit) \<times> world" where
  "request_authentication resources w =
     (let w1 = send_response 401 w;
          w2 = send_header ''WWW-Authenticate''
                 (StrHeader (''Basic realm='' @ [dq] @ get_authentication_realm resources @ [dq])) w1
      in end_headers w2)"

definition do_GET ::
  "sha256_fun \<Rightarrow> ResourceProvider \<Rightarrow> RequestHandler \<Rightarrow> world \<Rightarrow> (error + unit) \<times> world" where
  "do_GET sha256 resources self w =
     (case client_is_authenticated sha256 resources self of
        Inl e \<Rightarrow> (Inl e, w)
      | Inr True \<Rightarrow> handle_GET resources self w
      | Inr False \<Rightarrow> request_authentication resources w)"

section \<open>Sequences of calls on the provider\<close>

text \<open>
  The methods a request calls on the shared \<open>ResourceProvider\<close>. A call runs on the
  provider and the state around it and gives both back with its reply; none of the
  methods assigns to an attribute of the provider.
\<close>

datatype call =
    Get_index
  | Get_page string
  | Get_file string
  | Get_error string
  | Get_authentication_realm
  | Is_user_authenticated string string

datatype reply =
    Access ResourceAccess
  | No_access
  | Realm string
  | Authenticated bool
  | Raised error

fun perform :: "call \<Rightarrow> ResourceProvider \<times> world \<Rightarrow> reply \<times> ResourceProvider \<times> world" where
  "perform Get_index (self, w) = (Access (get_index self), self, w)"
| "perform (Get_page u) (self, w) =
     (case get_page self u of None \<Rightarrow> (No_access, self, w) | Some r \<Rightarrow> (Access r, self, w))"
| "perform (Get_file u) (self, w) =
     (case get_file self u w of
        (Inl e, w') \<Rightarrow> (Raised e, self, w')
      | (Inr None, w') \<Rightarrow> (No_access, self, w')
      | (Inr (Some r), w') \<Rightarrow> (Access r, self, w'))"
| "perform (Get_error u) (self, w) = (Access (get_error self u), self, w)"
| "perform Get_authentication_realm (self, w) = (Realm (get_authentication_realm self), self, w)"
| "perform (Is_user_authenticated nm sha) (self, w) =
     (Authenticated (is_user_authenticated self nm sha), self, w)"

fun perform_all :: "call list \<Rightarrow> ResourceProvider \<times> world \<Rightarrow> ResourceProvider \<times> world" where
  "perform_all [] s = s"
| "perform_all (c # cs) s = perform_all cs (snd (perform c s))"

section \<open>The file rule in the words of the specification\<close>

text \<open>
  The specification matches a file entry on "the path, normalized, with leading slash
  stripped". \<open>spec_file_key\<close> follows these words: normalize the request path, then
  take one leading slash away. The program normalizes \<open>"." + path\<close> instead.
\<close>

definition spec_file_key :: "string \<Rightarrow> string" where
  "spec_file_key p = (let n = normpath p in if take 1 n = ''/'' then drop 1 n else n)"

section \<open>Example data\<close>

text \<open>
  A stand-in for the hash functions, for running the model on examples: the bytes read
  as one big-endian number. The theorems below hold for every hash function.
\<close>

definition toy_digest :: "byte list \<Rightarrow> 'a::len word" where
  "toy_digest b = word_of_int (foldl (\<lambda>a x. 256 * a + uint x) 0 b)"

definition example_stat :: stat_result where
  "example_stat = \<lparr>st_mode = 33188, st_ino = 131, st_dev = 2049, st_nlink = 1, st_uid = 1000,
     st_gid = 1000, st_size = 5, st_atime = 1700000000, st_mtime = 1700000000,
     st_ctime = 1700000000\<rparr>"

definition example_file :: os_file where
  "example_file = \<lparr>content = [104, 101, 108, 108, 111], st = example_stat, open_error = None,
     io_error = False\<rparr>"

definition example_disk :: "string \<rightharpoonup> os_file" where
  "example_disk = [''a.txt'' \<mapsto> example_file]"

definition example_config :: config where
  "example_config =
     \<lparr>config_pages = [\<lparr>page_name = ''Cardiology'', page_corridor = ''A'', page_room = ''12'',
                        page_times = [(''08:00'', ''12:00'')]\<rparr>],
      config_files = [(''Doc'', ''a.txt'')],
      config_realm = ''Ospedale'',
      config_users = [(''alice'', hexdigest (toy_digest (encode ''pw'') :: 256 word))]\<rparr>"

definition example_world :: world where
  "example_world = \<lparr>fs = example_disk, open_files = Map.empty, next_file = 0, sent = [],
     client_connected = True\<rparr>"

definition example_provider :: ResourceProvider where
  "example_provider =
     \<lparr>pages = [PageData_init toy_digest ''Cardiology'' ''A'' ''12'' [(''08:00'', ''12:00'')]],
      files = [\<lparr>name = ''Doc'', url = hexdigest (toy_digest (encode ''doc'') :: 160 word),
                path = ''a.txt''\<rparr>],
      realm = ''Ospedale'',
      users = [''alice'' \<mapsto> hexdigest (toy_digest (encode ''pw'') :: 256 word)]\<rparr>"

text \<open>The example provider with a password that holds a colon, \<open>p:w\<close>, for \<open>alice\<close>.\<close>

definition example_provider_colon :: ResourceProvider where
  "example_provider_colon =
     example_provider\<lparr>users := [''alice'' \<mapsto> hexdigest (toy_digest (encode ''p:w'') :: 256 word)]\<rparr>"

section \<open>Strings, digests and paths: auxiliary facts\<close>







lemma length_hex_of: "length (hex_of k n) = k"
  by (induction k arbitrary: n) simp_all

lemma hexdigit_in: "hexdigit n \<in> set ''0123456789abcdef''"
proof -
  have "nat (n mod 16) < length ''0123456789abcdef''" by simp
  then show ?thesis unfolding hexdigit_def by (rule nth_mem)
qed

lemma set_hex_of: "set (hex_of k n) \<subseteq> set ''0123456789abcdef''"
proof (induction k arbitrary: n)
  case 0 show ?case by simp
next
  case (Suc k)
  have "hexdigit n \<in> set ''0123456789abcdef''" by (rule hexdigit_in)
  with Suc[of "n div 16"] show ?case by simp
qed

lemma length_hexdigest_160: "length (hexdigest (w :: 160 word)) = 40"
  by (simp add: hexdigest_def length_hex_of)

lemma set_hexdigest: "set (hexdigest w) \<subseteq> set ''0123456789abcdef''"
  by (simp only: hexdigest_def set_hex_of)

lemma split_at_no_sep: "sep \<notin> set s \<Longrightarrow> split_at sep w s = [w @ s]"
  by (induction s arbitrary: w) auto

lemma split_at_first_sep:
  "sep \<notin> set a \<Longrightarrow> split_at sep w (a @ sep # s) = (w @ a) # split_at sep [] s"
  by (induction a arbitrary: w) auto

lemma normpath_dot_slash:
  assumes "CHR ''/'' \<notin> set t" and "t \<noteq> []" and "t \<noteq> ''.''" and "t \<noteq> ''..''"
  shows "normpath (''.'' @ ''/'' @ t) = t"
proof -
  have "split_sep (''.'' @ ''/'' @ t) (CHR ''/'') = [''.'', t]"
    using assms(1) split_at_first_sep[of "CHR ''/''" "''.''" "[]" t]
    by (simp add: split_sep_def split_at_no_sep)
  then show ?thesis
    using assms by (simp add: normpath_def initial_slashes_def)
qed

lemma lower_char_hex: "c \<in> set ''0123456789abcdef'' \<Longrightarrow> lower_char c = c"
  by (auto simp: lower_char_def)

lemma lower_hex: "set u \<subseteq> set ''0123456789abcdef'' \<Longrightarrow> lower u = u"
  unfolding lower_def by (rule map_idI) (auto dest!: subsetD intro: lower_char_hex)

lemma lower_hexdigest: "lower (hexdigest w) = hexdigest w"
  by (rule lower_hex) (rule set_hexdigest)

lemma slash_lower: "CHR ''/'' \<in> set t \<Longrightarrow> CHR ''/'' \<in> set (lower t)"
proof -
  assume "CHR ''/'' \<in> set t"
  then have "lower_char (CHR ''/'') \<in> lower_char ` set t" by (rule imageI)
  then show ?thesis by (simp add: lower_def lower_char_def)
qed

lemma case_variant_plain:
  assumes "lower t = hexdigest (w :: 160 word)"
  shows "normpath (''.'' @ ''/'' @ t) = t"
proof (rule normpath_dot_slash)
  have len: "length t = 40"
    using arg_cong[OF assms, of length] by (simp add: lower_def length_hexdigest_160)
  show "CHR ''/'' \<notin> set t"
  proof
    assume "CHR ''/'' \<in> set t"
    then have "CHR ''/'' \<in> set (hexdigest w)" using slash_lower assms by metis
    then have "CHR ''/'' \<in> set ''0123456789abcdef''" using set_hexdigest by blast
    then show False by simp
  qed
  show "t \<noteq> []" "t \<noteq> ''.''" "t \<noteq> ''..''" using len by auto
qed

section \<open>The dispatch as one decision table\<close>

lemma get_page_loop_find:
  "get_page_loop ps u =
     map_option (\<lambda>p. from_html (name p) (draw_header (name p) @ draw_page p @ draw_footer))
       (find (\<lambda>d. url d = u) ps)"
  by (induction ps) simp_all

lemma get_file_loop_find:
  "get_file_loop fl u w =
     (case find (\<lambda>d. url d = u) fl of
        None \<Rightarrow> (Inr None, w)
      | Some f \<Rightarrow>
          (case from_file (name f) (path f) w of
             (Inl e, w') \<Rightarrow> (Inl e, w')
           | (Inr r, w') \<Rightarrow> (Inr (Some r), w')))"
  by (induction fl) simp_all

lemma from_file_eq:
  "from_file nm p w =
     (case fs w p of
        None \<Rightarrow> (Inl (FileNotFoundError p), w)
      | Some fl \<Rightarrow>
          (case open_error fl of
             Some e \<Rightarrow> (Inl e, w)
           | None \<Rightarrow>
               (Inr \<lparr>ra_name = nm, ra_length = StatValue (st fl), ra_stream = FileObject (next_file w)\<rparr>,
                w\<lparr>open_files := (open_files w)(next_file w \<mapsto> fl), next_file := Suc (next_file w)\<rparr>)))"
  by (simp add: from_file_def os_stat_def open_rb_def split: option.splits)

lemma dispatch_eq:
  "dispatch resources self (self_path self) w =
     (if path_is_index (lower (self_path self))
      then (Inr (200, get_index resources, ''text/html'', ''inline''), w)
      else case find (\<lambda>d. url d = drop 1 (lower (self_path self))) (pages resources) of
        Some pg \<Rightarrow>
          (Inr (200, from_html (name pg) (draw_header (name pg) @ draw_page pg @ draw_footer),
                ''text/html'', ''inline''), w)
      | None \<Rightarrow>
          (case find (\<lambda>d. url d = normpath (''.'' @ self_path self)) (files resources) of
             Some f \<Rightarrow>
               (case from_file (name f) (path f) w of
                  (Inl e, w') \<Rightarrow> (Inl e, w')
                | (Inr r, w') \<Rightarrow> (Inr (200, r, ''application/octet-stream'', ''attachment''), w'))
           | None \<Rightarrow> (Inr (404, get_error resources (self_path self), ''text/html'', ''inline''), w)))"
  by (simp add: dispatch_def try_get_html_def try_get_file_def get_not_found_def get_page_def
      get_file_def get_page_loop_find get_file_loop_find Let_def
      split: option.splits sum.splits prod.splits)

lemma find_None_iff2: "(find P xs = None) = (\<forall>x\<in>set xs. \<not> P x)"
  by (induction xs) auto

section \<open>Resources from HTML, and pages under another case\<close>

text \<open>The stream of a resource made from HTML gives the UTF-8 bytes of the string, and
  for an ASCII string their number is the number of code points.\<close>

lemma from_html_stream: "stream_read (ra_stream (from_html nm html)) w = Inr (encode html)"
  by (simp add: from_html_def stream_read_def)

lemma length_encode_ascii:
  "\<forall>c\<in>set html. (of_char c :: nat) < 128 \<Longrightarrow> length (encode html) = length html"
  by (induction html) (simp_all add: encode_def encode_char_def)

text \<open>The page lookup works on the lower-cased path: a case variant of a page url is
  answered with a page.\<close>

lemma provider_page_urls:
  assumes "ResourceProvider_init sha1 disk cfg = Inr catalog" and "pg \<in> set (pages catalog)"
  shows "\<exists>w :: 160 word. url pg = hexdigest w"
proof -
  from assms(1) have "pages catalog = map (json_page_to_data sha1) (config_pages cfg)"
    by (auto simp: ResourceProvider_init_def Let_def split: sum.splits)
  with assms(2) obtain j where "pg = json_page_to_data sha1 j" by auto
  then show ?thesis
    by (auto simp: json_page_to_data_def PageData_init_def ResourceData_init_def Let_def)
qed

lemma page_match_ignores_case:
  assumes "ResourceProvider_init sha1 disk cfg = Inr catalog"
      and "pg \<in> set (pages catalog)"
      and "self_path self = ''/'' @ t"
      and "lower t = url pg"
  shows "\<exists>r. dispatch catalog self (self_path self) w = (Inr (200, r, ''text/html'', ''inline''), w)"
proof -
  from provider_page_urls[OF assms(1,2)] obtain v :: "160 word" where v: "url pg = hexdigest v"
    by blast
  have low: "lower (self_path self) = CHR ''/'' # url pg"
    using assms(3,4) by (simp add: lower_def lower_char_def)
  have "length (url pg) = 40" using v by (simp add: length_hexdigest_160)
  then have idx: "\<not> path_is_index (lower (self_path self))"
    unfolding low path_is_index_def by auto
  have "find (\<lambda>d. url d = drop 1 (lower (self_path self))) (pages catalog) \<noteq> None"
    using assms(2) by (auto simp: low find_None_iff2)
  then obtain pg' where
    "find (\<lambda>d. url d = drop 1 (lower (self_path self))) (pages catalog) = Some pg'"
    by auto
  with idx show ?thesis by (simp add: dispatch_eq)
qed

section \<open>The claims\<close>



text \<open>What \<open>__client_is_authenticated\<close> does with the pieces of the credentials: the
  second piece, whatever follows it, is hashed and looked up under the first.\<close>

lemma client_is_authenticated_pieces:
  assumes "authorization self = Some decoded"
      and "split_sep decoded (CHR '':'') = nm # pw # rest"
  shows "client_is_authenticated sha256 resources self
           = Inr (nm \<in> dom (users resources)
                  \<and> users resources nm = Some (hexdigest (sha256 (encode pw))))"
  using assms by (auto simp: client_is_authenticated_def is_user_authenticated_def)

text \<open>
  C6. The claim: the client is authenticated exactly when the user table holds, for the
  username, the hash of the password that was supplied. The credentials
  \<open>username:password\<close> are split at every colon and only the piece between the first
  and the second colon is hashed. With the hash of \<open>p:w\<close> stored for \<open>alice\<close>, the
  credentials \<open>alice:p:w\<close> are refused, although the table holds the hash of the
  supplied password; with the hash of \<open>pw\<close> stored, the credentials \<open>alice:pw:extra\<close>
  are accepted, although the table does not hold the hash of \<open>pw:extra\<close>.
\<close>

theorem C6_password_cut_at_colon:
  "client_is_authenticated toy_digest example_provider_colon
      \<lparr>self_path = ''/'', authorization = Some ''alice:p:w''\<rparr> = Inr False
   \<and> is_user_authenticated example_provider_colon ''alice''
       (hexdigest (toy_digest (encode ''p:w'') :: 256 word)) = True
   \<and> client_is_authenticated toy_digest example_provider
      \<lparr>self_path = ''/'', authorization = Some ''alice:pw:extra''\<rparr> = Inr True
   \<and> is_user_authenticated example_provider ''alice''
       (hexdigest (toy_digest (encode ''pw:extra'') :: 256 word)) = False"
proof -
  have s1: "split_sep ''alice:p:w'' (CHR '':'') = ''alice'' # ''p'' # [''w'']"
    by (simp add: split_sep_def)
  have s2: "split_sep ''alice:pw:extra'' (CHR '':'') = ''alice'' # ''pw'' # [''extra'']"
    by (simp add: split_sep_def)
  have a: "authorization \<lparr>self_path = ''/'', authorization = Some x\<rparr> = Some x" for x
    by simp
  have n1: "hexdigest (toy_digest (encode ''p:w'') :: 256 word)
              \<noteq> hexdigest (toy_digest (encode ''p'') :: 256 word)"
    by code_simp
  have n2: "hexdigest (toy_digest (encode ''pw'') :: 256 word)
              \<noteq> hexdigest (toy_digest (encode ''pw:extra'') :: 256 word)"
    by code_simp
  have "client_is_authenticated toy_digest example_provider_colon
      \<lparr>self_path = ''/'', authorization = Some ''alice:p:w''\<rparr> = Inr False"
    using client_is_authenticated_pieces [OF a s1, of toy_digest example_provider_colon] n1
    by (simp add: example_provider_colon_def)
  moreover have "is_user_authenticated example_provider_colon ''alice''
       (hexdigest (toy_digest (encode ''p:w'') :: 256 word)) = True"
    by (simp add: is_user_authenticated_def example_provider_colon_def)
  moreover have "client_is_authenticated toy_digest example_provider
      \<lparr>self_path = ''/'', authorization = Some ''alice:pw:extra''\<rparr> = Inr True"
    using client_is_authenticated_pieces [OF a s2, of toy_digest example_provider]
    by (simp add: example_provider_def)
  moreover have "is_user_authenticated example_provider ''alice''
       (hexdigest (toy_digest (encode ''pw:extra'') :: 256 word)) = False"
    using n2 by (simp add: is_user_authenticated_def example_provider_def)
  ultimately show ?thesis by (intro conjI)
qed

lemma files_init_missing:
  "\<exists>f\<in>set fl. \<not> os_path_exists disk (snd f) \<Longrightarrow>
   \<exists>p. p \<in> snd ` set fl \<and> \<not> os_path_exists disk p \<and>
       files_init sha1 disk fl
         = Inl (IOError ([CHR 0x27] @ p @ [CHR 0x27] @ '' file not found while initializing''))"
proof (induction fl)
  case Nil
  then show ?case by simp
next
  case (Cons f fl)
  show ?case
  proof (cases "os_path_exists disk (snd f)")
    case False
    then show ?thesis by (auto simp: FileData_init_def intro!: exI[of _ "snd f"])
  next
    case True
    with Cons.prems have "\<exists>f\<in>set fl. \<not> os_path_exists disk (snd f)" by auto
    from Cons.IH[OF this] obtain p where p: "p \<in> snd ` set fl" "\<not> os_path_exists disk p"
      "files_init sha1 disk fl
         = Inl (IOError ([CHR 0x27] @ p @ [CHR 0x27] @ '' file not found while initializing''))"
      by blast
    then show ?thesis using True
      by (intro exI[of _ p]) (simp add: FileData_init_def Let_def)
  qed
qed

text \<open>
  C7. When the path of some file of the configuration does not exist at load time,
  \<open>ResourceProvider.__init__\<close> raises the \<open>IOError\<close> of \<open>FileData.__init__\<close> for such
  a path, and it returns no provider: no pages, files or users to serve requests from.
\<close>

theorem C7_missing_file_aborts:
  assumes "\<exists>f\<in>set (config_files cfg). \<not> os_path_exists disk (snd f)"
  shows "(\<exists>p. p \<in> snd ` set (config_files cfg) \<and> \<not> os_path_exists disk p \<and>
              ResourceProvider_init sha1 disk cfg
                = Inl (IOError ([CHR 0x27] @ p @ [CHR 0x27] @ '' file not found while initializing'')))
         \<and> (\<forall>catalog. ResourceProvider_init sha1 disk cfg \<noteq> Inr catalog)"
proof -
  from files_init_missing[OF assms, of sha1] obtain p where
    p: "p \<in> snd ` set (config_files cfg)" "\<not> os_path_exists disk p"
       "files_init sha1 disk (config_files cfg)
          = Inl (IOError ([CHR 0x27] @ p @ [CHR 0x27] @ '' file not found while initializing''))"
    by blast
  then have "ResourceProvider_init sha1 disk cfg
      = Inl (IOError ([CHR 0x27] @ p @ [CHR 0x27] @ '' file not found while initializing''))"
    by (simp add: ResourceProvider_init_def Let_def)
  with p show ?thesis by auto
qed

theorem C7_missing_file_aborts_witness:
  "ResourceProvider_init toy_digest example_disk
     (example_config\<lparr>config_files := [(''Doc'', ''a.txt''), (''Lost'', ''b.txt'')]\<rparr>)
   = Inl (IOError '''b.txt' file not found while initializing'')"
proof -
  have h: "\<exists>f\<in>set (config_files (example_config\<lparr>config_files := [(''Doc'', ''a.txt''), (''Lost'', ''b.txt'')]\<rparr>)).
             \<not> os_path_exists example_disk (snd f)"
    by (simp add: os_path_exists_def example_disk_def)
  show ?thesis
    using C7_missing_file_aborts [OF h, of toy_digest]
    by (auto simp: os_path_exists_def example_disk_def)
qed

lemma perform_provider: "fst (snd (perform c (self, w))) = self"
  by (cases c) (auto split: option.splits sum.splits prod.splits)

lemma perform_all_provider: "fst (perform_all cs (self, w)) = self"
proof (induction cs arbitrary: w)
  case Nil
  show ?case by simp
next
  case (Cons c cs)
  obtain r self' w' where p: "perform c (self, w) = (r, self', w')"
    by (cases "perform c (self, w)") auto
  with perform_provider[of c self w] have "self' = self" by simp
  with p Cons.IH[of w'] show ?case by simp
qed

text \<open>
  C9. After any sequence of calls of \<open>get_index\<close>, \<open>get_page\<close>, \<open>get_file\<close>,
  \<open>get_error\<close>, \<open>is_user_authenticated\<close> and \<open>get_authentication_realm\<close> the provider
  is the one that was constructed: the same pages, files, users and realm. Only the
  state around it moves (\<open>get_file\<close> opens a file).
\<close>

theorem C9_calls_keep_catalog:
  "fst (perform_all cs (self, w)) = self
   \<and> pages (fst (perform_all cs (self, w))) = pages self
   \<and> files (fst (perform_all cs (self, w))) = files self
   \<and> users (fst (perform_all cs (self, w))) = users self
   \<and> realm (fst (perform_all cs (self, w))) = realm self"
  by (simp add: perform_all_provider)

theorem C9_calls_keep_catalog_witness:
  "fst (perform_all [Get_index, Get_file (url (hd (files example_provider))), Get_page ''x'',
          Get_error ''/y'', Is_user_authenticated ''alice'' ''00'', Get_authentication_realm]
        (example_provider, example_world)) = example_provider"
  by (rule C9_calls_keep_catalog [of _ example_provider example_world, THEN conjunct1])

lemma encode_append: "encode (a @ b) = encode a @ encode b"
  by (simp add: encode_def)

lemma sublist_encode: "sublist a b \<Longrightarrow> sublist (encode a) (encode b)"
  unfolding sublist_def by (metis encode_append)

lemma sublist_draw_header: "sublist t (draw_header t)"
  unfolding draw_header_def sublist_def
  by (rule exI[of _ "''<html><head><title>''"], rule exI, simp)

lemma sublist_get_error_html:
  "sublist u (draw_header ([CHR 0x27] @ u @ [CHR 0x27] @ '' non trovato'') @ draw_footer)"
proof -
  have "sublist u ([CHR 0x27] @ u @ [CHR 0x27] @ '' non trovato'')"
    unfolding sublist_def by blast
  then have "sublist u (draw_header ([CHR 0x27] @ u @ [CHR 0x27] @ '' non trovato''))"
    using sublist_draw_header sublist_order.order_trans by blast
  then show ?thesis unfolding sublist_def by (metis append.assoc)
qed

text \<open>
  C8. A request path that is not an index path in lower case, whose lower-cased form
  without its first character is the url of no page, and for which \<open>"." + path\<close>
  normalizes to the url of no file, is answered with status 404 and the not-found page:
  an HTML string that contains the path as it was requested, sent as its UTF-8 bytes,
  which contain the UTF-8 bytes of the path.
\<close>

theorem C8_not_found:
  assumes "\<not> path_is_index (lower (self_path self))"
      and "\<forall>pg\<in>set (pages resources). url pg \<noteq> drop 1 (lower (self_path self))"
      and "\<forall>f\<in>set (files resources). url f \<noteq> normpath (''.'' @ self_path self)"
  shows "\<exists>html. dispatch resources self (self_path self) w
            = (Inr (404, \<lparr>ra_name = ''Pagina sconosciuta'', ra_length = IntValue (int (length html)),
                         ra_stream = BytesIO (encode html)\<rparr>, ''text/html'', ''inline''), w)
          \<and> sublist (self_path self) html
          \<and> sublist (encode (self_path self)) (encode html)"
proof -
  let ?html = "draw_header ([CHR 0x27] @ self_path self @ [CHR 0x27] @ '' non trovato'') @ draw_footer"
  have p: "find (\<lambda>d. url d = drop 1 (lower (self_path self))) (pages resources) = None"
    using assms(2) by (simp add: find_None_iff2)
  have f: "find (\<lambda>d. url d = normpath (''.'' @ self_path self)) (files resources) = None"
    using assms(3) by (simp add: find_None_iff2)
  have "dispatch resources self (self_path self) w
          = (Inr (404, get_error resources (self_path self), ''text/html'', ''inline''), w)"
    by (simp only: dispatch_eq assms(1) p f if_False option.case)
  then have "dispatch resources self (self_path self) w
            = (Inr (404, \<lparr>ra_name = ''Pagina sconosciuta'', ra_length = IntValue (int (length ?html)),
                         ra_stream = BytesIO (encode ?html)\<rparr>, ''text/html'', ''inline''), w)"
    by (simp only: get_error_def from_html_def)
  moreover have "sublist (self_path self) ?html" by (rule sublist_get_error_html)
  moreover from this have "sublist (encode (self_path self)) (encode ?html)" by (rule sublist_encode)
  ultimately show ?thesis by blast
qed


theorem C8_not_found_witness:
  "\<exists>html. dispatch example_provider \<lparr>self_path = ''/does-not-exist'', authorization = None\<rparr>
             ''/does-not-exist'' example_world
            = (Inr (404, \<lparr>ra_name = ''Pagina sconosciuta'', ra_length = IntValue (int (length html)),
                         ra_stream = BytesIO (encode html)\<rparr>, ''text/html'', ''inline''), example_world)
          \<and> sublist ''/does-not-exist'' html
          \<and> sublist (encode ''/does-not-exist'') (encode html)"
proof -
  let ?self = "\<lparr>self_path = ''/does-not-exist'', authorization = None\<rparr>"
  have h1: "\<not> path_is_index (lower (self_path ?self))"
    by code_simp
  have h2: "\<forall>pg\<in>set (pages example_provider). url pg \<noteq> drop 1 (lower (self_path ?self))"
    by code_simp
  have h3: "\<forall>f\<in>set (files example_provider). url f \<noteq> normpath (''.'' @ self_path ?self)"
    by code_simp
  show ?thesis
    using C8_not_found [OF h1 h2 h3, of example_world] by simp
qed

lemma files_init_urls:
  "files_init sha1 disk fl = Inr ds \<Longrightarrow> \<forall>d\<in>set ds. \<exists>w :: 160 word. url d = hexdigest w"
proof (induction fl arbitrary: ds)
  case Nil
  then show ?case by simp
next
  case (Cons f fl)
  from Cons.prems obtain d ds' where
    d: "FileData_init sha1 disk (fst f) (snd f) = Inr d" and
    ds': "files_init sha1 disk fl = Inr ds'" and eq: "ds = d # ds'"
    by (auto split: sum.splits)
  from d have "\<exists>w :: 160 word. url d = hexdigest w"
    by (auto simp: FileData_init_def ResourceData_init_def Let_def split: if_splits)
  with Cons.IH[OF ds'] eq show ?case by simp
qed

lemma provider_file_urls:
  assumes "ResourceProvider_init sha1 disk cfg = Inr catalog" and "f \<in> set (files catalog)"
  shows "\<exists>w :: 160 word. url f = hexdigest w"
proof -
  from assms(1) obtain ds where "files_init sha1 disk (config_files cfg) = Inr ds"
    and "files catalog = ds"
    by (auto simp: ResourceProvider_init_def Let_def split: sum.splits)
  with files_init_urls assms(2) show ?thesis by blast
qed

lemma example_files_loaded:
  "files_init toy_digest example_disk (config_files example_config) = Inr (files example_provider)"
  by code_simp

lemma example_pages_loaded:
  "map (json_page_to_data toy_digest) (config_pages example_config) = pages example_provider"
  by code_simp

lemma example_provider_loaded:
  "ResourceProvider_init toy_digest example_disk example_config = Inr example_provider"
  unfolding ResourceProvider_init_def Let_def example_files_loaded example_pages_loaded
  by (simp add: example_provider_def example_config_def)

text \<open>
  C10. In a provider built by the constructor, let a request path be \<open>"/"\<close> and then
  the url of a file entry with at least one letter in another case (\<open>lower t\<close> is the
  url, \<open>t\<close> is not), and let it match neither the index nor a page. Then no file
  matches and the answer is the 404 page: the file lookup compares the path as it was
  requested, and the urls are lower-case hexadecimal.
\<close>

theorem C10_file_match_is_case_sensitive:
  assumes "ResourceProvider_init sha1 disk cfg = Inr catalog"
      and "f \<in> set (files catalog)"
      and "self_path self = ''/'' @ t"
      and "lower t = url f"
      and "t \<noteq> url f"
      and "try_get_html catalog self (self_path self) = None"
  shows "dispatch catalog self (self_path self) w
           = (Inr (404, get_error catalog (self_path self), ''text/html'', ''inline''), w)"
proof -
  from provider_file_urls[OF assms(1,2)] obtain v :: "160 word" where v: "url f = hexdigest v"
    by blast
  have key: "normpath (''.'' @ self_path self) = t"
    using case_variant_plain[of t v] assms(3,4) v by simp
  have "url g \<noteq> t" if "g \<in> set (files catalog)" for g
  proof
    assume e: "url g = t"
    from provider_file_urls[OF assms(1) that] obtain u :: "160 word" where "url g = hexdigest u"
      by blast
    with e have "lower t = t" using lower_hexdigest[of u] by simp
    with assms(4,5) show False by simp
  qed
  then have "find (\<lambda>d. url d = t) (files catalog) = None"
    by (simp add: find_None_iff2)
  then have none: "get_file_loop (files catalog) t w = (Inr None, w)"
    by (simp add: get_file_loop_find)
  show ?thesis
    using assms(6) none key
    by (simp add: dispatch_def try_get_file_def get_file_def get_not_found_def)
qed

theorem C10_file_match_is_case_sensitive_witness:
  "dispatch example_provider
      \<lparr>self_path = ''/0000000000000000000000000000000000646F63'', authorization = None\<rparr>
      ''/0000000000000000000000000000000000646F63'' example_world
     = (Inr (404, get_error example_provider ''/0000000000000000000000000000000000646F63'',
             ''text/html'', ''inline''), example_world)"
proof -
  let ?self = "\<lparr>self_path = ''/0000000000000000000000000000000000646F63'', authorization = None\<rparr>"
  let ?f = "\<lparr>name = ''Doc'', url = hexdigest (toy_digest (encode ''doc'') :: 160 word), path = ''a.txt''\<rparr>"
  have l: "ResourceProvider_init toy_digest example_disk example_config = Inr example_provider"
    by (simp add: example_provider_loaded)
  have m: "?f \<in> set (files example_provider)"
    by (simp add: example_provider_def)
  have p: "self_path ?self = ''/'' @ ''0000000000000000000000000000000000646F63''"
    by simp
  have c: "lower ''0000000000000000000000000000000000646F63'' = url ?f"
    by code_simp
  have d: "''0000000000000000000000000000000000646F63'' \<noteq> url ?f"
    by code_simp
  have h: "try_get_html example_provider ?self (self_path ?self) = None"
    by code_simp
  show ?thesis
    using C10_file_match_is_case_sensitive [OF l m p c d h, of example_world] by simp
qed

lemma dispatch_index:
  "path_is_index (lower q) \<Longrightarrow>
   dispatch resources (self\<lparr>self_path := q\<rparr>) q w
     = (Inr (200, get_index resources, ''text/html'', ''inline''), w)"
  using dispatch_eq[of resources "self\<lparr>self_path := q\<rparr>" w] by simp

text \<open>
  C3. The dispatch of \<open>self.path\<close>, first match first: (1) the path in lower case is
  \<open>/\<close>, \<open>/index.html\<close> or \<open>/index.htm\<close>: 200 and the index, \<open>text/html\<close>, \<open>inline\<close>;
  (2) otherwise the first page whose url is the lower-cased path without its first
  character: 200 and that page, \<open>text/html\<close>, \<open>inline\<close>; (3) otherwise the first file
  whose url is the normalization of \<open>"." + path\<close>: \<open>from_file\<close> is called on its name and
  path, and the resource it returns is answered with 200, \<open>application/octet-stream\<close>,
  \<open>attachment\<close>; (4) otherwise 404 and the not-found page of the path, \<open>text/html\<close>,
  \<open>inline\<close>. \<open>/INDEX.HTML\<close>, \<open>/Index.Html\<close> and \<open>/index.html\<close> all give the index.
\<close>

theorem C3_dispatch_precedence:
  "dispatch resources self (self_path self) w =
     (if path_is_index (lower (self_path self))
      then (Inr (200, get_index resources, ''text/html'', ''inline''), w)
      else case find (\<lambda>d. url d = drop 1 (lower (self_path self))) (pages resources) of
        Some pg \<Rightarrow>
          (Inr (200, from_html (name pg) (draw_header (name pg) @ draw_page pg @ draw_footer),
                ''text/html'', ''inline''), w)
      | None \<Rightarrow>
          (case find (\<lambda>d. url d = normpath (''.'' @ self_path self)) (files resources) of
             Some f \<Rightarrow>
               (case from_file (name f) (path f) w of
                  (Inl e, w') \<Rightarrow> (Inl e, w')
                | (Inr r, w') \<Rightarrow> (Inr (200, r, ''application/octet-stream'', ''attachment''), w'))
           | None \<Rightarrow> (Inr (404, get_error resources (self_path self), ''text/html'', ''inline''), w)))
   \<and> dispatch resources (self\<lparr>self_path := ''/INDEX.HTML''\<rparr>) ''/INDEX.HTML'' w
       = (Inr (200, get_index resources, ''text/html'', ''inline''), w)
   \<and> dispatch resources (self\<lparr>self_path := ''/Index.Html''\<rparr>) ''/Index.Html'' w
       = (Inr (200, get_index resources, ''text/html'', ''inline''), w)
   \<and> dispatch resources (self\<lparr>self_path := ''/index.html''\<rparr>) ''/index.html'' w
       = (Inr (200, get_index resources, ''text/html'', ''inline''), w)"
proof -
  have a: "path_is_index (lower ''/INDEX.HTML'')" by code_simp
  have b: "path_is_index (lower ''/Index.Html'')" by code_simp
  have c: "path_is_index (lower ''/index.html'')" by code_simp
  show ?thesis
    using dispatch_eq[of resources self w] dispatch_index[OF a, of resources self w]
      dispatch_index[OF b, of resources self w] dispatch_index[OF c, of resources self w]
    by (intro conjI)
qed

theorem C3_dispatch_precedence_witness:
  "dispatch example_provider
      \<lparr>self_path = ''/0000000000000000000000000000000000646f63'', authorization = None\<rparr>
      ''/0000000000000000000000000000000000646f63'' example_world
     = (Inr (200, \<lparr>ra_name = ''Doc'', ra_length = StatValue example_stat,
                  ra_stream = FileObject 0\<rparr>, ''application/octet-stream'', ''attachment''),
        example_world\<lparr>open_files := [0 \<mapsto> example_file], next_file := Suc 0\<rparr>)
   \<and> dispatch example_provider
      \<lparr>self_path = ''/0000000000000000000000000000000000646f63'', authorization = None\<rparr>
      ''/0000000000000000000000000000000000646f63''
      (example_world\<lparr>fs := [''a.txt'' \<mapsto>
          example_file\<lparr>open_error := Some (IsADirectoryError ''a.txt'')\<rparr>]\<rparr>)
     = (Inl (IsADirectoryError ''a.txt''),
        example_world\<lparr>fs := [''a.txt'' \<mapsto>
          example_file\<lparr>open_error := Some (IsADirectoryError ''a.txt'')\<rparr>]\<rparr>)"
proof -
  let ?p = "''/0000000000000000000000000000000000646f63''"
  let ?self = "\<lparr>self_path = ?p, authorization = None\<rparr>"
  let ?f = "\<lparr>name = ''Doc'', url = hexdigest (toy_digest (encode ''doc'') :: 160 word), path = ''a.txt''\<rparr>"
  let ?w = "example_world\<lparr>fs := [''a.txt'' \<mapsto>
          example_file\<lparr>open_error := Some (IsADirectoryError ''a.txt'')\<rparr>]\<rparr>"
  have i: "path_is_index (lower ?p) = False" by code_simp
  have pg: "find (\<lambda>d. url d = drop 1 (lower ?p)) (pages example_provider) = None" by code_simp
  have fl: "find (\<lambda>d. url d = normpath (''.'' @ ?p)) (files example_provider) = Some ?f"
    by code_simp
  have o: "from_file ''Doc'' ''a.txt'' example_world
            = (Inr \<lparr>ra_name = ''Doc'', ra_length = StatValue example_stat, ra_stream = FileObject 0\<rparr>,
               example_world\<lparr>open_files := [0 \<mapsto> example_file], next_file := Suc 0\<rparr>)"
    by (simp add: from_file_eq example_world_def example_disk_def example_file_def)
  have d: "from_file ''Doc'' ''a.txt'' ?w = (Inl (IsADirectoryError ''a.txt''), ?w)"
    by (simp add: from_file_eq example_world_def example_file_def)
  have s: "self_path ?self = ?p" by simp
  have "dispatch example_provider ?self ?p example_world
     = (Inr (200, \<lparr>ra_name = ''Doc'', ra_length = StatValue example_stat,
                  ra_stream = FileObject 0\<rparr>, ''application/octet-stream'', ''attachment''),
        example_world\<lparr>open_files := [0 \<mapsto> example_file], next_file := Suc 0\<rparr>)"
    using C3_dispatch_precedence [of example_provider ?self example_world, THEN conjunct1]
    unfolding s i pg fl by (simp add: o)
  moreover have "dispatch example_provider ?self ?p ?w = (Inl (IsADirectoryError ''a.txt''), ?w)"
    using C3_dispatch_precedence [of example_provider ?self ?w, THEN conjunct1]
    unfolding s i pg fl by (simp add: d)
  ultimately show ?thesis by (intro conjI)
qed

text \<open>
  The file rule as the claim words it fails: for the path \<open>/../\<close> and then the url of
  the example file, the normalized path without its leading slash is that url, no index
  and no page matches, and the program answers 404, since \<open>"." + path\<close> normalizes to
  \<open>../\<close> and then the url.
\<close>

theorem C3_spec_file_key_counterexample:
  "map url (files example_provider) = [''0000000000000000000000000000000000646f63'']
   \<and> spec_file_key ''/../0000000000000000000000000000000000646f63''
       = ''0000000000000000000000000000000000646f63''
   \<and> path_is_index (lower ''/../0000000000000000000000000000000000646f63'') = False
   \<and> get_page example_provider (drop 1 (lower ''/../0000000000000000000000000000000000646f63'')) = None
   \<and> fst (dispatch example_provider
         \<lparr>self_path = ''/../0000000000000000000000000000000000646f63'', authorization = None\<rparr>
         ''/../0000000000000000000000000000000000646f63'' example_world)
       = Inr (404, get_error example_provider ''/../0000000000000000000000000000000000646f63'',
              ''text/html'', ''inline'')"
  by code_simp

text \<open>
  C1. The claim: a request for \<open>"/"\<close> and then the url of a file entry is answered with
  status 200 and a length equal to the size of the file. On the example provider the
  status is 200, but \<open>from_file\<close> stores the whole result of \<open>os.stat\<close> as the length,
  and this object, not the size 5 of the file, is what \<open>Content-length\<close> is given.
\<close>

theorem C1_content_length_is_stat_result:
  "ResourceProvider_init toy_digest example_disk example_config = Inr example_provider
   \<and> fst (dispatch example_provider
         \<lparr>self_path = ''/0000000000000000000000000000000000646f63'', authorization = None\<rparr>
         ''/0000000000000000000000000000000000646f63'' example_world)
       = Inr (200, \<lparr>ra_name = ''Doc'', ra_length = StatValue example_stat,
                    ra_stream = FileObject 0\<rparr>, ''application/octet-stream'', ''attachment'')
   \<and> sent (snd (handle_GET example_provider
         \<lparr>self_path = ''/0000000000000000000000000000000000646f63'', authorization = None\<rparr>
         example_world))
       = [Wfile_write [104, 101, 108, 108, 111], End_headers,
          Send_header ''Content-Disposition''
            (StrHeader (''attachment; filename='' @ [dq] @ ''Doc'' @ [dq])),
          Send_header ''Content-length'' (LengthHeader (StatValue example_stat)),
          Send_header ''Content-type'' (StrHeader ''application/octet-stream''),
          Send_response 200]
   \<and> length (content example_file) = 5
   \<and> StatValue example_stat \<noteq> IntValue 5"
proof -
  have "fst (dispatch example_provider
         \<lparr>self_path = ''/0000000000000000000000000000000000646f63'', authorization = None\<rparr>
         ''/0000000000000000000000000000000000646f63'' example_world)
       = Inr (200, \<lparr>ra_name = ''Doc'', ra_length = StatValue example_stat,
                    ra_stream = FileObject 0\<rparr>, ''application/octet-stream'', ''attachment'')"
    by code_simp
  moreover have "sent (snd (handle_GET example_provider
         \<lparr>self_path = ''/0000000000000000000000000000000000646f63'', authorization = None\<rparr>
         example_world))
       = [Wfile_write [104, 101, 108, 108, 111], End_headers,
          Send_header ''Content-Disposition''
            (StrHeader (''attachment; filename='' @ [dq] @ ''Doc'' @ [dq])),
          Send_header ''Content-length'' (LengthHeader (StatValue example_stat)),
          Send_header ''Content-type'' (StrHeader ''application/octet-stream''),
          Send_response 200]"
    by code_simp
  moreover have "length (content example_file) = 5" by (simp add: example_file_def)
  moreover have "StatValue example_stat \<noteq> IntValue 5" by simp
  ultimately show ?thesis using example_provider_loaded by (intro conjI)
qed

text \<open>
  C2. The claim: the stream of the resource is closed on every way out of
  \<open>__handle_GET\<close>. On the example provider the file object is closed after a response
  that went through, and it is still open when reading the file raises and when the
  client has gone before the headers are flushed: \<open>close\<close> is the last statement and no
  handler guards it.
\<close>

theorem C2_stream_left_open_on_error:
  "fst (handle_GET example_provider
         \<lparr>self_path = ''/0000000000000000000000000000000000646f63'', authorization = None\<rparr>
         (example_world\<lparr>fs := [''a.txt'' \<mapsto> example_file\<lparr>io_error := True\<rparr>]\<rparr>)) = Inl OSError
   \<and> open_files (snd (handle_GET example_provider
         \<lparr>self_path = ''/0000000000000000000000000000000000646f63'', authorization = None\<rparr>
         (example_world\<lparr>fs := [''a.txt'' \<mapsto> example_file\<lparr>io_error := True\<rparr>]\<rparr>))) 0
       = Some (example_file\<lparr>io_error := True\<rparr>)
   \<and> fst (handle_GET example_provider
         \<lparr>self_path = ''/0000000000000000000000000000000000646f63'', authorization = None\<rparr>
         (example_world\<lparr>client_connected := False\<rparr>)) = Inl BrokenPipeError
   \<and> open_files (snd (handle_GET example_provider
         \<lparr>self_path = ''/0000000000000000000000000000000000646f63'', authorization = None\<rparr>
         (example_world\<lparr>client_connected := False\<rparr>))) 0
       = Some example_file
   \<and> fst (handle_GET example_provider
         \<lparr>self_path = ''/0000000000000000000000000000000000646f63'', authorization = None\<rparr>
         example_world) = Inr ()
   \<and> open_files (snd (handle_GET example_provider
         \<lparr>self_path = ''/0000000000000000000000000000000000646f63'', authorization = None\<rparr>
         example_world)) 0 = None"
  by code_simp

text \<open>
  C4. The claim: the length of a resource made from HTML is the number of bytes of its
  UTF-8 encoding. \<open>from_html\<close> takes \<open>len(html)\<close>, the number of code points: for the
  one code point U+00E9 the length is 1 and the stream has 2 bytes, and the not-found
  page of the path \<open>/\<close> U+00E9 has the length 240 and a stream of 242 bytes.
\<close>

theorem C4_length_counts_code_points:
  "from_html ''x'' [CHR 0xE9] = \<lparr>ra_name = ''x'', ra_length = IntValue 1, ra_stream = BytesIO [0xC3, 0xA9]\<rparr>
   \<and> (case fst (dispatch example_provider \<lparr>self_path = [CHR ''/'', CHR 0xE9], authorization = None\<rparr>
                  [CHR ''/'', CHR 0xE9] example_world) of
        Inr (code, r, t, d) \<Rightarrow>
          code = 404 \<and> ra_length r = IntValue 240
          \<and> (case ra_stream r of BytesIO b \<Rightarrow> length b = 242 | FileObject n \<Rightarrow> False)
      | Inl e \<Rightarrow> False)"
  by code_simp

end
